theory Spec2Isabelle
  imports Complex_Main "HOL-Library.Log_Nat"
begin

section \<open>JavaScript numbers\<close>

text \<open>
  The Interrupt Cursor (\<^verbatim>\<open>lastInterruptTimestamp\<close>) and the playback volume are JavaScript
  numbers, that is IEEE binary64 values. A value is \<open>NaN\<close>, an infinity, or a finite double,
  which is kept as the rational it denotes. The two zeros are identified: nothing below
  distinguishes them (\<^verbatim>\<open>-0 <= 0\<close> and \<^verbatim>\<open>0 <= -0\<close> both hold in JavaScript).
\<close>

datatype jsnum = NaN | NegInf | Fin rat | PosInf

text \<open>The relational operators \<^verbatim>\<open><\<close> and \<^verbatim>\<open><=\<close>: every comparison with \<open>NaN\<close> is false.\<close>

fun jlt :: "jsnum \<Rightarrow> jsnum \<Rightarrow> bool" where
  "jlt NaN _ = False"
| "jlt _ NaN = False"
| "jlt _ NegInf = False"
| "jlt NegInf _ = True"
| "jlt PosInf _ = False"
| "jlt (Fin a) PosInf = True"
| "jlt (Fin a) (Fin b) = (a < b)"

fun jle :: "jsnum \<Rightarrow> jsnum \<Rightarrow> bool" where
  "jle NaN _ = False"
| "jle _ NaN = False"
| "jle NegInf _ = True"
| "jle _ PosInf = True"
| "jle _ NegInf = False"
| "jle PosInf _ = False"
| "jle (Fin a) (Fin b) = (a \<le> b)"

text \<open>\<^verbatim>\<open>a > b\<close> is \<^verbatim>\<open>b < a\<close>.\<close>

abbreviation jgt :: "jsnum \<Rightarrow> jsnum \<Rightarrow> bool" where
  "jgt a b \<equiv> jlt b a"

text \<open>\<^verbatim>\<open>Math.min\<close> and \<^verbatim>\<open>Math.max\<close> of two arguments: \<open>NaN\<close> if either argument is.\<close>

definition Math_min :: "jsnum \<Rightarrow> jsnum \<Rightarrow> jsnum" where
  "Math_min a b = (if a = NaN \<or> b = NaN then NaN else if jlt b a then b else a)"

definition Math_max :: "jsnum \<Rightarrow> jsnum \<Rightarrow> jsnum" where
  "Math_max a b = (if a = NaN \<or> b = NaN then NaN else if jlt a b then b else a)"

subsection \<open>Rounding a decimal value to binary64\<close>

definition pow2 :: "int \<Rightarrow> rat" where
  "pow2 e = (if 0 \<le> e then 2 ^ nat e else 1 / 2 ^ nat (- e))"

definition pow10 :: "int \<Rightarrow> rat" where
  "pow10 e = (if 0 \<le> e then 10 ^ nat e else 1 / 10 ^ nat (- e))"

text \<open>The binary exponent of a positive rational \<open>a\<close>: the \<open>e\<close> with \<open>2\<^sup>e \<le> a < 2\<^sup>e\<^sup>+\<^sup>1\<close>.\<close>

definition floor_log2 :: "rat \<Rightarrow> int" where
  "floor_log2 a =
     (let (n, d) = quotient_of a;
          k = bitlen n - bitlen d
      in if pow2 k \<le> a then k else k - 1)"

definition round_half_even :: "rat \<Rightarrow> int" where
  "round_half_even m =
     (let f = \<lfloor>m\<rfloor>; d = m - of_int f
      in if d < 1 / 2 then f else if 1 / 2 < d then f + 1
         else if even f then f else f + 1)"

text \<open>
  Round to nearest, ties to even, with 53 significant bits, gradual underflow below
  \<open>2\<^sup>-\<^sup>1\<^sup>0\<^sup>2\<^sup>2\<close> and overflow to an infinity from \<open>2\<^sup>1\<^sup>0\<^sup>2\<^sup>4\<close> on.
\<close>

definition to_double :: "rat \<Rightarrow> jsnum" where
  "to_double q =
     (if q = 0 then Fin 0
      else let a = \<bar>q\<bar>;
               e = max (floor_log2 a) (- 1022);
               ulp = pow2 (e - 52);
               v = of_int (round_half_even (a / ulp)) * ulp
           in if pow2 1024 \<le> v then (if q < 0 then NegInf else PosInf)
              else Fin (if q < 0 then - v else v))"

section \<open>Strings\<close>

text \<open>
  A string is a list of code units; the model keeps the code units below 256, which is
  where the separator, the digits and the white space read by the code below live.
\<close>

text \<open>\<^verbatim>\<open>s.split(sep)\<close> for a one-character separator: never the empty array.\<close>

fun js_split :: "char \<Rightarrow> string \<Rightarrow> string list" where
  "js_split sep [] = [[]]"
| "js_split sep (c # cs) =
     (if c = sep then [] # js_split sep cs
      else (case js_split sep cs of
              seg # segs \<Rightarrow> (c # seg) # segs
            | [] \<Rightarrow> [[c]]))"

definition is_digit :: "char \<Rightarrow> bool" where
  "is_digit c = (c \<in> set ''0123456789'')"

definition digit_val :: "char \<Rightarrow> int" where
  "digit_val c = of_char c - 48"

definition digits_val :: "string \<Rightarrow> int" where
  "digits_val ds = foldl (\<lambda>acc c. 10 * acc + digit_val c) 0 ds"

text \<open>White space and line terminators stripped by \<^verbatim>\<open>parseFloat\<close>: TAB, LF, VT, FF, CR, SP, NBSP.\<close>

definition is_white :: "char \<Rightarrow> bool" where
  "is_white c = ((of_char c :: nat) \<in> {9, 10, 11, 12, 13, 32, 160})"

definition split_sign :: "string \<Rightarrow> bool \<times> string" where
  "split_sign s =
     (case s of
        [] \<Rightarrow> (False, [])
      | c # r \<Rightarrow> if c = CHR ''-'' then (True, r)
                 else if c = CHR ''+'' then (False, r)
                 else (False, s))"

text \<open>
  The value of an exponent part \<^verbatim>\<open>e\<close>/\<^verbatim>\<open>E\<close>, optional sign, digits at the head of the
  string; \<open>0\<close> when there is none (an \<^verbatim>\<open>e\<close> without digits is not part of the literal).
\<close>

definition exponent_part :: "string \<Rightarrow> int" where
  "exponent_part s =
     (case s of
        [] \<Rightarrow> 0
      | c # r \<Rightarrow>
          if c = CHR ''e'' \<or> c = CHR ''E'' then
            (let (neg, r') = split_sign r;
                 ds = takeWhile is_digit r'
             in if ds = [] then 0
                else if neg then - digits_val ds else digits_val ds)
          else 0)"

text \<open>
  \<^verbatim>\<open>parseFloat(s)\<close>: skip leading white space, take the longest prefix that is a signed
  decimal literal (\<^verbatim>\<open>Infinity\<close>, or digits with an optional fraction and exponent), and
  return its value as a double; \<open>NaN\<close> when no prefix is one.
\<close>

definition parseFloat :: "string \<Rightarrow> jsnum" where
  "parseFloat s =
     (let t = dropWhile is_white s;
          (neg, u) = split_sign t
      in if take 8 u = ''Infinity'' then (if neg then NegInf else PosInf)
         else
           let ip = takeWhile is_digit u;
               r1 = dropWhile is_digit u;
               has_dot = (case r1 of [] \<Rightarrow> False | c # _ \<Rightarrow> c = CHR ''.'');
               fp = (if has_dot then takeWhile is_digit (tl r1) else []);
               r2 = (if has_dot then dropWhile is_digit (tl r1) else r1)
           in if ip = [] \<and> fp = [] then NaN
              else
                let m = of_int (digits_val ip) + of_int (digits_val fp) / 10 ^ length fp;
                    v = m * pow10 (exponent_part r2)
                in to_double (if neg then - v else v))"

section \<open>Response identifiers\<close>

text \<open>\<^verbatim>\<open>responseId.split('_')[1]\<close>: the second segment, \<open>None\<close> for \<^verbatim>\<open>undefined\<close>.\<close>

definition second_segment :: "string \<Rightarrow> string option" where
  "second_segment responseId =
     (case js_split CHR ''_'' responseId of
        _ # seg # _ \<Rightarrow> Some seg
      | _ \<Rightarrow> None)"

text \<open>
  \<^verbatim>\<open>parseResponseId(responseId) = parseFloat(responseId.split('_')[1] || '0')\<close>: the default
  \<^verbatim>\<open>'0'\<close> stands in for a segment that is missing or empty, the two falsy cases.
\<close>

definition parseResponseId :: "string \<Rightarrow> jsnum" where
  "parseResponseId responseId =
     parseFloat (case second_segment responseId of
                   None \<Rightarrow> ''0''
                 | Some seg \<Rightarrow> if seg = [] then ''0'' else seg)"

section \<open>Events, callbacks and the outside world\<close>

text \<open>
  A protocol event as the code reads it: the \<^verbatim>\<open>type\<close> discriminator, the \<^verbatim>\<open>event_id\<close>, the
  \<^verbatim>\<open>response_id\<close> and \<^verbatim>\<open>delta\<close> of the response events, the \<^verbatim>\<open>error\<close> record of an error
  event, and the remaining fields, which no code below reads, as one opaque \<open>body\<close>.
  A field an event's interface does not declare is left empty.
\<close>

record realtime_error =
  err_type :: string
  code :: string
  message :: string

record event =
  etype :: string
  event_id :: string
  response_id :: string
  delta :: string
  error :: "realtime_error option"
  body :: string

text \<open>
  A thrown value, as far as the \<^verbatim>\<open>catch\<close> blocks look at it: \<^verbatim>\<open>null\<close>/\<^verbatim>\<open>undefined\<close>, on which
  reading \<^verbatim>\<open>.message\<close> is itself a \<^verbatim>\<open>TypeError\<close>, or any other value with its \<^verbatim>\<open>message\<close>
  property (\<open>None\<close> when it has none).
\<close>

datatype thrown = Nullish | Thrown "string option"

definition TypeError :: thrown where
  "TypeError = Thrown (Some ''TypeError: cannot read properties of null or undefined'')"

datatype completion = Normal | Raise thrown

datatype outcome = Returns | Throws thrown

text \<open>A callback (listener or sink) is a function object, known by its identity.\<close>

type_synonym callback = nat

datatype device = CaptureDevice | RenderDevice

datatype worklet_message = Interrupt | ClearInterrupted | Buffer string

text \<open>What the code does to its collaborators, in the order it does it.\<close>

datatype effect =
    ListenerCall callback event
  | ConsoleError string
  | ConsoleLog string jsnum
  | ConsoleDebug event
  | AudioChunkCall callback string
  | AudioInterruptCall callback
  | AudioFadeOutCall callback
  | SendEventCall callback event
  | WsSend event
  | WsClose
  | DeviceClose device
  | PostMessage worklet_message
  | ExponentialRamp jsnum

text \<open>
  The world outside the classes: the trace of effects so far, how a registered listener
  answers an event (it returns or it throws), whether closing a device resolves or
  rejects given what happened before, the identifiers \<^verbatim>\<open>crypto.randomUUID()\<close> hands out,
  and the pending timers. Listeners and sinks are opaque: they do not call back into the
  objects modelled here, and the three audio sinks and the send observer return normally.
\<close>

record world =
  effects :: "effect list"
  listener :: "callback \<Rightarrow> event \<Rightarrow> outcome"
  device_close :: "effect list \<Rightarrow> device \<Rightarrow> thrown option"
  uuid_source :: "nat \<Rightarrow> string"
  uuid_next :: nat
  timers :: "nat list"

definition emit :: "effect \<Rightarrow> world \<Rightarrow> world" where
  "emit e w = w\<lparr>effects := effects w @ [e]\<rparr>"

definition randomUUID :: "world \<Rightarrow> string \<times> world" where
  "randomUUID w = (uuid_source w (uuid_next w), w\<lparr>uuid_next := Suc (uuid_next w)\<rparr>)"

section \<open>EventProcessor\<close>

text \<open>
  \<^verbatim>\<open>eventHandlers: Map<string, Set<handler>>\<close>: a map from the event-type key to the handlers
  in insertion order, without duplicates. The fields of the subclass
  \<^verbatim>\<open>RealtimeApiEventProcessor\<close> are part of the same record.
\<close>

record processor =
  eventHandlers :: "string \<rightharpoonup> callback list"
  processor_onSendEvent :: "callback option"
  lastInterruptTimestamp :: jsnum
  onAudioChunk :: "callback option"
  onAudioInterrupt :: "callback option"
  onAudioFadeOut :: "callback option"

definition new_processor :: "callback option \<Rightarrow> callback option \<Rightarrow> callback option
    \<Rightarrow> callback option \<Rightarrow> processor" where
  "new_processor send chunk interrupt fade =
     \<lparr>eventHandlers = Map.empty, processor_onSendEvent = send, lastInterruptTimestamp = Fin 0,
      onAudioChunk = chunk, onAudioInterrupt = interrupt, onAudioFadeOut = fade\<rparr>"

definition on :: "string \<Rightarrow> callback \<Rightarrow> processor \<Rightarrow> processor" where
  "on eventType handler p =
     (let hs = (case eventHandlers p eventType of None \<Rightarrow> [] | Some hs \<Rightarrow> hs)
      in p\<lparr>eventHandlers := (eventHandlers p)(eventType \<mapsto>
              (if handler \<in> set hs then hs else hs @ [handler]))\<rparr>)"

definition off :: "string \<Rightarrow> callback \<Rightarrow> processor \<Rightarrow> processor" where
  "off eventType handler p =
     (case eventHandlers p eventType of
        None \<Rightarrow> p
      | Some hs \<Rightarrow> p\<lparr>eventHandlers := (eventHandlers p)(eventType \<mapsto> removeAll handler hs)\<rparr>)"

text \<open>The event \<^verbatim>\<open>handleError\<close> builds from a thrown value's message.\<close>

definition errorEvent :: "string \<Rightarrow> string option \<Rightarrow> event" where
  "errorEvent uuid msg =
     \<lparr>etype = ''error'', event_id = uuid, response_id = [], delta = [],
      error = Some \<lparr>err_type = ''error'', code = ''internal_error'',
                    message = (case msg of
                                 None \<Rightarrow> ''Internal error occurred''
                               | Some m \<Rightarrow> if m = [] then ''Internal error occurred'' else m)\<rparr>,
      body = []\<rparr>"

text \<open>The console line for a handler that threw: \<^verbatim>\<open>`Error in event handler for ${eventType}:`\<close>.\<close>

definition handler_error_line :: "string \<Rightarrow> string" where
  "handler_error_line eventType = ''Error in event handler for '' @ eventType @ '':''"

text \<open>
  The body of \<^verbatim>\<open>triggerEvent\<close>: \<^verbatim>\<open>handlers.forEach\<close> with the \<^verbatim>\<open>try\<close>/\<^verbatim>\<open>catch\<close> around each
  handler. A handler that throws is reported on the console and handed to \<^verbatim>\<open>handleError\<close>,
  which builds the error event (drawing its identifier first, then reading the thrown
  value's message) and calls \<^verbatim>\<open>triggerEvent("error", errorEvent)\<close> before the loop goes on.
  \<^verbatim>\<open>handleError\<close> runs inside the \<^verbatim>\<open>catch\<close> block, so what it throws leaves the loop.
  The recursion through the error key need not end: \<open>None\<close> is the run that never returns.
\<close>

partial_function (option) forEach_handler ::
    "processor \<Rightarrow> callback list \<Rightarrow> string \<Rightarrow> event \<Rightarrow> world \<Rightarrow> (completion \<times> world) option" where
  "forEach_handler p handlers eventType ev w =
     (case handlers of
        [] \<Rightarrow> Some (Normal, w)
      | handler # rest \<Rightarrow>
          (let w1 = emit (ListenerCall handler ev) w in
           case listener w handler ev of
             Returns \<Rightarrow> forEach_handler p rest eventType ev w1
           | Throws err \<Rightarrow>
               (let w2 = emit (ConsoleError (handler_error_line eventType)) w1;
                    (uuid, w3) = randomUUID w2
                in case err of
                     Nullish \<Rightarrow> Some (Raise TypeError, w3)
                   | Thrown msg \<Rightarrow>
                       Option.bind
                         (case eventHandlers p ''error'' of
                            None \<Rightarrow> Some (Normal, w3)
                          | Some ehs \<Rightarrow> forEach_handler p ehs ''error'' (errorEvent uuid msg) w3)
                         (\<lambda>(r, w4). case r of
                                       Raise e \<Rightarrow> Some (Raise e, w4)
                                     | Normal \<Rightarrow> forEach_handler p rest eventType ev w4))))"

declare forEach_handler.simps [code]

definition triggerEvent :: "processor \<Rightarrow> string \<Rightarrow> event \<Rightarrow> world \<Rightarrow> (completion \<times> world) option" where
  "triggerEvent p eventType ev w =
     (case eventHandlers p eventType of
        None \<Rightarrow> Some (Normal, w)
      | Some handlers \<Rightarrow> forEach_handler p handlers eventType ev w)"

definition handleError :: "processor \<Rightarrow> thrown \<Rightarrow> world \<Rightarrow> (completion \<times> world) option" where
  "handleError p err w =
     (let (uuid, w1) = randomUUID w
      in case err of
           Nullish \<Rightarrow> Some (Raise TypeError, w1)
         | Thrown msg \<Rightarrow> triggerEvent p ''error'' (errorEvent uuid msg) w1)"

section \<open>RealtimeApiEventProcessor\<close>

definition handleAudioResponse :: "processor \<Rightarrow> event \<Rightarrow> world \<Rightarrow> world" where
  "handleAudioResponse p ev w =
     (let timestamp = parseResponseId (response_id ev)
      in if jle (lastInterruptTimestamp p) timestamp then
           (if etype ev = ''response.audio.delta'' then
              (case onAudioChunk p of
                 None \<Rightarrow> w
               | Some cb \<Rightarrow> emit (AudioChunkCall cb (delta ev)) w)
            else w)
         else w)"

definition handleAudioInterrupt :: "processor \<Rightarrow> event \<Rightarrow> world \<Rightarrow> processor \<times> world" where
  "handleAudioInterrupt p ev w =
     (let p1 = p\<lparr>lastInterruptTimestamp := parseResponseId (response_id ev)\<rparr>;
          w1 = emit (ConsoleLog ''lastInterruptTimestamp'' (lastInterruptTimestamp p1)) w;
          w2 = (case onAudioInterrupt p1 of None \<Rightarrow> w1 | Some cb \<Rightarrow> emit (AudioInterruptCall cb) w1);
          w3 = (case onAudioFadeOut p1 of None \<Rightarrow> w2 | Some cb \<Rightarrow> emit (AudioFadeOutCall cb) w2)
      in (p1, w3))"

definition shouldFilterTextEvent :: "processor \<Rightarrow> event \<Rightarrow> bool" where
  "shouldFilterTextEvent p ev = jgt (lastInterruptTimestamp p) (parseResponseId (response_id ev))"

text \<open>
  \<^verbatim>\<open>processServerEvent\<close>: the four cases in the order of the source. The timestamp it
  computes first is not used.
\<close>

definition processServerEvent ::
    "processor \<Rightarrow> event \<Rightarrow> world \<Rightarrow> (completion \<times> processor \<times> world) option" where
  "processServerEvent p ev w =
     (if etype ev = ''response.audio.delta'' \<or> etype ev = ''response.audio.done'' then
        Some (Normal, p, handleAudioResponse p ev w)
      else if etype ev = ''response.audio.cancel'' then
        (let (p1, w1) = handleAudioInterrupt p ev w in Some (Normal, p1, w1))
      else if (etype ev = ''response.text.delta'' \<or> etype ev = ''response.text.done'')
              \<and> shouldFilterTextEvent p ev then
        Some (Normal, p, w)
      else
        map_option (\<lambda>(r, w1). (r, p, w1)) (triggerEvent p (etype ev) ev w))"

definition processInternalEvent ::
    "processor \<Rightarrow> event \<Rightarrow> world \<Rightarrow> (completion \<times> world) option" where
  "processInternalEvent p ev w = triggerEvent p (etype ev) ev w"

definition getLastInterruptTimestamp :: "processor \<Rightarrow> jsnum" where
  "getLastInterruptTimestamp p = lastInterruptTimestamp p"

definition resetInterruptTimestamp :: "processor \<Rightarrow> processor" where
  "resetInterruptTimestamp p = p\<lparr>lastInterruptTimestamp := Fin 0\<rparr>"

definition setAudioChunkCallback :: "callback \<Rightarrow> processor \<Rightarrow> processor" where
  "setAudioChunkCallback cb p = p\<lparr>onAudioChunk := Some cb\<rparr>"

definition setAudioInterruptCallback :: "callback \<Rightarrow> processor \<Rightarrow> processor" where
  "setAudioInterruptCallback cb p = p\<lparr>onAudioInterrupt := Some cb\<rparr>"

definition setAudioFadeOutCallback :: "callback \<Rightarrow> processor \<Rightarrow> processor" where
  "setAudioFadeOutCallback cb p = p\<lparr>onAudioFadeOut := Some cb\<rparr>"

section \<open>Conversation\<close>

text \<open>
  The render device as the session uses it: the \<^verbatim>\<open>value\<close> of its gain parameter. The capture
  device and the socket are handles without state of their own here.
\<close>

record audio_output =
  gain_value :: jsnum

datatype audio_input = AudioInput

datatype websocket = WebSocket

record conversation =
  ws :: "websocket option"
  isConnected :: bool
  eventProcessor :: processor
  onSendEvent :: "callback option"
  audioInput :: "audio_input option"
  audioOutput :: "audio_output option"
  isMuted :: bool
  volume :: jsnum

text \<open>The private constructor: no socket, no devices, not muted, full volume.\<close>

definition new_conversation :: "processor \<Rightarrow> callback option \<Rightarrow> conversation" where
  "new_conversation ep cb =
     \<lparr>ws = None, isConnected = False, eventProcessor = ep, onSendEvent = cb,
      audioInput = None, audioOutput = None, isMuted = False, volume = Fin 1\<rparr>"

text \<open>
  \<^verbatim>\<open>sendEvent\<close>: the guard, the console line for events other than audio appends, the
  transmission \<^verbatim>\<open>ws.send(JSON.stringify(event))\<close>, then the observer \<^verbatim>\<open>onSendEvent\<close>, again for
  events other than audio appends.
\<close>

definition sendEvent :: "conversation \<Rightarrow> event \<Rightarrow> world \<Rightarrow> completion \<times> world" where
  "sendEvent c ev w =
     (if ws c = None \<or> \<not> isConnected c then
        (Raise (Thrown (Some ''WebSocket is not connected'')), w)
      else
        let w1 = (if etype ev \<noteq> ''input_audio_buffer.append''
                  then emit (ConsoleDebug ev) w else w);
            w2 = emit (WsSend ev) w1;
            w3 = (if etype ev \<noteq> ''input_audio_buffer.append''
                  then (case onSendEvent c of
                          None \<Rightarrow> w2
                        | Some cb \<Rightarrow> emit (SendEventCall cb ev) w2)
                  else w2)
        in (Normal, w3))"

text \<open>
  \<^verbatim>\<open>Conversation.handleError\<close> reads \<^verbatim>\<open>error.message\<close> and \<^verbatim>\<open>error.stack\<close> and writes one console
  line; it throws nothing unless the error is \<^verbatim>\<open>null\<close>/\<^verbatim>\<open>undefined\<close>.
\<close>

definition Conversation_handleError :: "thrown \<Rightarrow> world \<Rightarrow> completion \<times> world" where
  "Conversation_handleError err w =
     (case err of
        Nullish \<Rightarrow> (Raise TypeError, w)
      | Thrown msg \<Rightarrow> (Normal, emit (ConsoleError ''Error in conversation:'') w))"

text \<open>\<^verbatim>\<open>AudioInput.close()\<close> and \<^verbatim>\<open>AudioOutput.close()\<close>: the call, and whether its promise rejects.\<close>

definition close_device :: "device \<Rightarrow> world \<Rightarrow> thrown option \<times> world" where
  "close_device d w = (device_close w (effects w) d, emit (DeviceClose d) w)"

text \<open>The \<^verbatim>\<open>catch\<close> block of \<^verbatim>\<open>endSession\<close>: report, then throw the error again.\<close>

definition endSession_catch ::
    "thrown \<Rightarrow> conversation \<Rightarrow> world \<Rightarrow> (completion \<times> conversation \<times> world) option" where
  "endSession_catch err c w =
     (case Conversation_handleError err w of
        (Raise e, w1) \<Rightarrow> Some (Raise e, c, w1)
      | (Normal, w1) \<Rightarrow> Some (Raise err, c, w1))"

definition disconnected :: event where
  "disconnected = \<lparr>etype = ''disconnected'', event_id = [], response_id = [], delta = [],
                    error = None, body = []\<rparr>"

definition endSession ::
    "conversation \<Rightarrow> world \<Rightarrow> (completion \<times> conversation \<times> world) option" where
  "endSession c w =
     (let (r1, w1) = (case audioInput c of
                        None \<Rightarrow> (None, w)
                      | Some _ \<Rightarrow> close_device CaptureDevice w)
      in case r1 of
           Some err \<Rightarrow> endSession_catch err c w1
         | None \<Rightarrow>
             (let (r2, w2) = (case audioOutput c of
                                None \<Rightarrow> (None, w1)
                              | Some _ \<Rightarrow> close_device RenderDevice w1)
              in case r2 of
                   Some err \<Rightarrow> endSession_catch err c w2
                 | None \<Rightarrow>
                     (let (c3, w3) = (case ws c of
                                        None \<Rightarrow> (c, w2)
                                      | Some _ \<Rightarrow> (c\<lparr>ws := None\<rparr>, emit WsClose w2));
                          c4 = c3\<lparr>isConnected := False\<rparr>
                      in case processInternalEvent (eventProcessor c4) disconnected w3 of
                           None \<Rightarrow> None
                         | Some (Raise err, w4) \<Rightarrow> endSession_catch err c4 w4
                         | Some (Normal, w4) \<Rightarrow> Some (Normal, c4, w4))))"

text \<open>\<^verbatim>\<open>close()\<close>: \<^verbatim>\<open>endSession\<close> with its error reported and dropped.\<close>

definition close ::
    "conversation \<Rightarrow> world \<Rightarrow> (completion \<times> conversation \<times> world) option" where
  "close c w =
     (case endSession c w of
        None \<Rightarrow> None
      | Some (Normal, c1, w1) \<Rightarrow> Some (Normal, c1, w1)
      | Some (Raise err, c1, w1) \<Rightarrow>
          (case Conversation_handleError err w1 of (r, w2) \<Rightarrow> Some (r, c1, w2)))"

text \<open>
  Assigning \<^verbatim>\<open>gain.gain.value\<close>: the parameter takes finite values only, the assignment of
  anything else is a \<^verbatim>\<open>TypeError\<close>.
\<close>

definition set_gain_value :: "jsnum \<Rightarrow> audio_output \<Rightarrow> completion \<times> audio_output" where
  "set_gain_value v out =
     (case v of
        Fin x \<Rightarrow> (Normal, out\<lparr>gain_value := Fin x\<rparr>)
      | _ \<Rightarrow> (Raise (Thrown (Some ''TypeError: the provided float value is non-finite'')), out))"

definition setVolume :: "jsnum \<Rightarrow> conversation \<Rightarrow> completion \<times> conversation" where
  "setVolume v c =
     (let c1 = c\<lparr>volume := Math_max (Fin 0) (Math_min (Fin 1) v)\<rparr>
      in case audioOutput c1 of
           None \<Rightarrow> (Normal, c1)
         | Some out \<Rightarrow>
             (case set_gain_value (volume c1) out of
                (r, out1) \<Rightarrow> (r, c1\<lparr>audioOutput := Some out1\<rparr>)))"

definition getVolume :: "conversation \<Rightarrow> jsnum" where
  "getVolume c = volume c"

definition getConnectionStatus :: "conversation \<Rightarrow> bool" where
  "getConnectionStatus c = isConnected c"

text \<open>
  \<^verbatim>\<open>fadeOutAudio\<close> tells the worklet to stop, starts the two-second ramp of the gain towards
  \<^verbatim>\<open>0.0001\<close> and sets a timer of 2000 ms, whose callback is \<open>fadeOutAudio_timeout\<close>. How the
  gain moves while the ramp runs is a matter of real time and is not modelled: the gain
  recorded is the one the ramp ends at, which is what the timer's callback finds.
\<close>

definition ramp_target :: jsnum where
  "ramp_target = to_double (1 / 10000)"

definition fadeOutAudio :: "conversation \<Rightarrow> world \<Rightarrow> conversation \<times> world" where
  "fadeOutAudio c w =
     (case audioOutput c of
        None \<Rightarrow> (c, w)
      | Some out \<Rightarrow>
          (c\<lparr>audioOutput := Some (out\<lparr>gain_value := ramp_target\<rparr>)\<rparr>,
           (emit (ExponentialRamp ramp_target) (emit (PostMessage Interrupt) w))
             \<lparr>timers := timers w @ [2000]\<rparr>))"

definition fadeOutAudio_timeout ::
    "conversation \<Rightarrow> world \<Rightarrow> completion \<times> conversation \<times> world" where
  "fadeOutAudio_timeout c w =
     (case audioOutput c of
        None \<Rightarrow> (Normal, c, w)
      | Some out \<Rightarrow>
          (case set_gain_value (volume c) out of
             (Raise e, out1) \<Rightarrow> (Raise e, c\<lparr>audioOutput := Some out1\<rparr>, w)
           | (Normal, out1) \<Rightarrow>
               (Normal, c\<lparr>audioOutput := Some out1\<rparr>, emit (PostMessage ClearInterrupted) w)))"

text \<open>The event loop runs the oldest pending timer.\<close>

definition run_timer :: "conversation \<Rightarrow> world \<Rightarrow> completion \<times> conversation \<times> world" where
  "run_timer c w =
     (case timers w of
        [] \<Rightarrow> (Normal, c, w)
      | _ # ts \<Rightarrow> fadeOutAudio_timeout c (w\<lparr>timers := ts\<rparr>))"

section \<open>Streams of events and example data\<close>

text \<open>\<^verbatim>\<open>this.eventHandlers.get(eventType)\<close>, read as a list: no entry, no handlers.\<close>

definition handlers_of :: "processor \<Rightarrow> string \<Rightarrow> callback list" where
  "handlers_of p eventType = (case eventHandlers p eventType of None \<Rightarrow> [] | Some hs \<Rightarrow> hs)"

text \<open>
  The events of a stream, in arrival order, each handled by its own call of
  \<^verbatim>\<open>processServerEvent\<close>. What a call throws is caught by its caller (\<^verbatim>\<open>ws.onmessage\<close>) and does
  not stop the stream; a call that never returns does.
\<close>

fun processServerEvents :: "processor \<Rightarrow> event list \<Rightarrow> world \<Rightarrow> (processor \<times> world) option" where
  "processServerEvents p [] w = Some (p, w)"
| "processServerEvents p (ev # evs) w =
     (case processServerEvent p ev w of
        None \<Rightarrow> None
      | Some (_, p1, w1) \<Rightarrow> processServerEvents p1 evs w1)"

definition server_event :: "string \<Rightarrow> string \<Rightarrow> string \<Rightarrow> event" where
  "server_event t rid d =
     \<lparr>etype = t, event_id = ''evt_1'', response_id = rid, delta = d, error = None, body = []\<rparr>"

text \<open>A world in which every listener returns and every device closes without error.\<close>

definition quiet_world :: world where
  "quiet_world =
     \<lparr>effects = [], listener = (\<lambda>cb ev. Returns), device_close = (\<lambda>hist d. None),
      uuid_source = (\<lambda>n. ''uuid''), uuid_next = 0, timers = []\<rparr>"

text \<open>
  A processor with the three audio sinks \<open>10\<close>, \<open>11\<close>, \<open>12\<close>, a listener \<open>5\<close> on each of
  \<^verbatim>\<open>response.text.delta\<close> and \<^verbatim>\<open>response.audio.delta\<close>, and the same processor once response
  100 has been interrupted.
\<close>

definition sample_processor :: processor where
  "sample_processor =
     on ''response.audio.delta'' 5 (on ''response.text.delta'' 5
       (new_processor None (Some 10) (Some 11) (Some 12)))"

definition interrupted_processor :: processor where
  "interrupted_processor = sample_processor\<lparr>lastInterruptTimestamp := Fin 100\<rparr>"

definition cancel_event :: "string \<Rightarrow> event" where
  "cancel_event rid = server_event ''response.audio.cancel'' rid []"

text \<open>
  Processors with two listeners under one key: \<open>1\<close> and \<open>2\<close> under \<^verbatim>\<open>error\<close>, and \<open>1\<close> and
  \<open>2\<close> under \<^verbatim>\<open>session.updated\<close> with \<open>3\<close> under \<^verbatim>\<open>error\<close>. In \<open>throwing_world\<close>
  listener \<open>1\<close> throws \<^verbatim>\<open>new Error("boom")\<close> whenever it is called; the others return.
\<close>

definition error_listeners :: processor where
  "error_listeners = on ''error'' 2 (on ''error'' 1 (new_processor None None None None))"

definition update_listeners :: processor where
  "update_listeners =
     on ''error'' 3 (on ''session.updated'' 2 (on ''session.updated'' 1
       (new_processor None None None None)))"

definition throwing_world :: world where
  "throwing_world =
     quiet_world\<lparr>listener :=
       (\<lambda>cb ev. if cb = 1 then Throws (Thrown (Some ''boom'')) else Returns)\<rparr>"

text \<open>
  A session as \<^verbatim>\<open>startSession\<close> leaves it once the socket has opened: both devices, the
  socket, connected, an observer \<open>9\<close> for sent events and a listener \<open>7\<close> for
  \<^verbatim>\<open>disconnected\<close>.
\<close>

definition open_conversation :: conversation where
  "open_conversation =
     \<lparr>ws = Some WebSocket, isConnected = True,
      eventProcessor = on ''disconnected'' 7 (new_processor None None None None),
      onSendEvent = Some 9, audioInput = Some AudioInput,
      audioOutput = Some \<lparr>gain_value = Fin 1\<rparr>, isMuted = False, volume = Fin 1\<rparr>"

text \<open>A world in which closing a device that was closed before rejects.\<close>

definition strict_world :: world where
  "strict_world =
     quiet_world\<lparr>device_close :=
       (\<lambda>hist d. if DeviceClose d \<in> set hist
                  then Some (Thrown (Some ''InvalidStateError'')) else None)\<rparr>"

text \<open>Two calls of \<^verbatim>\<open>endSession\<close> in succession on the same session, with both completions.\<close>

definition endSession_twice ::
    "conversation \<Rightarrow> world \<Rightarrow> (completion \<times> completion \<times> conversation \<times> world) option" where
  "endSession_twice c w =
     (case endSession c w of
        None \<Rightarrow> None
      | Some (r1, c1, w1) \<Rightarrow>
          (case endSession c1 w1 of
             None \<Rightarrow> None
           | Some (r2, c2, w2) \<Rightarrow> Some (r1, r2, c2, w2)))"

text \<open>The calls \<^verbatim>\<open>endSession\<close> makes on the devices and the socket it holds, in order.\<close>

definition teardown_calls :: "conversation \<Rightarrow> effect list" where
  "teardown_calls c =
     (case audioInput c of None \<Rightarrow> [] | Some _ \<Rightarrow> [DeviceClose CaptureDevice])
     @ (case audioOutput c of None \<Rightarrow> [] | Some _ \<Rightarrow> [DeviceClose RenderDevice])
     @ (case ws c of None \<Rightarrow> [] | Some _ \<Rightarrow> [WsClose])"

text \<open>The specification's clamp to the interval from 0 to 1, for comparison with \<^verbatim>\<open>setVolume\<close>.\<close>

definition clamp01 :: "jsnum \<Rightarrow> jsnum" where
  "clamp01 v = (if jlt v (Fin 0) then Fin 0 else if jlt (Fin 1) v then Fin 1 else v)"

text \<open>A client event of a given type, with the rest of its fields in \<open>body\<close>.\<close>

definition client_event :: "string \<Rightarrow> string \<Rightarrow> event" where
  "client_event t b =
     \<lparr>etype = t, event_id = ''evt_2'', response_id = [], delta = [], error = None, body = b\<rparr>"

section \<open>Basic facts\<close>

lemma listener_emit [simp]: "listener (emit e w) = listener w"
  by (simp add: emit_def)

lemma effects_emit [simp]: "effects (emit e w) = effects w @ [e]"
  by (simp add: emit_def)

lemma jlt_not_jle: "jlt a b \<Longrightarrow> \<not> jle b a"
  by (cases a; cases b) auto

text \<open>
  Integers below \<open>2\<^sup>5\<^sup>3\<close> are doubles: rounding leaves them as they are. The suffixes of
  response identifiers are such integers in practice.
\<close>

lemma round_half_even_int: "round_half_even (of_int z) = z"
  by (simp add: round_half_even_def)

lemma floor_log2_int:
  assumes "0 < n"
  shows "floor_log2 (of_int n) = bitlen n - 1"
proof -
  have q: "quotient_of (of_int n :: rat) = (n, 1)" by simp
  have b1: "bitlen 1 = 1" by (simp add: bitlen_alt_def)
  have pos: "0 \<le> bitlen n - 1" using assms by (simp add: bitlen_alt_def)
  from bitlen_bounds [OF assms] have "2 ^ nat (bitlen n - 1) \<le> n" by simp
  then have "(2::rat) ^ nat (bitlen n - 1) \<le> of_int n"
    by (metis of_int_le_iff of_int_numeral of_int_power)
  then have "pow2 (bitlen n - 1) \<le> of_int n"
    using pos by (simp add: pow2_def)
  then show ?thesis
    by (simp add: floor_log2_def q b1)
qed

lemma to_double_int_exact:
  assumes "0 < n" "n < 2 ^ 53"
  shows "to_double (of_int n) = Fin (of_int n)"
proof -
  define k where "k = bitlen n - 1"
  have k0: "0 \<le> k" using assms(1) by (simp add: k_def bitlen_alt_def)
  have "(2::int) ^ nat (bitlen n - 1) < 2 ^ 53"
    using bitlen_bounds [OF assms(1)] assms(2) by linarith
  then have "nat (bitlen n - 1) < 53"
    by (simp only: power_strict_increasing_iff [of "2::int"])
  then have "bitlen n \<le> 53"
    by linarith
  then have k52: "k \<le> 52" by (simp add: k_def)
  have fl: "floor_log2 (of_int n) = k"
    using floor_log2_int [OF assms(1)] by (simp add: k_def)
  have ulp: "pow2 (k - 52) = 1 / 2 ^ nat (52 - k)"
    using k52 by (cases "k = 52") (simp_all add: pow2_def)
  have m: "(of_int n :: rat) / pow2 (k - 52) = of_int (n * 2 ^ nat (52 - k))"
    by (simp add: ulp)
  have v: "of_int (round_half_even ((of_int n :: rat) / pow2 (k - 52))) * pow2 (k - 52) = (of_int n :: rat)"
    unfolding m round_half_even_int by (simp add: ulp)
  have kmax: "max k (- 1022) = k"
    using k0 by simp
  have "(of_int n :: rat) < 2 ^ 53"
    using assms(2) by (metis of_int_less_iff of_int_numeral of_int_power)
  also have "(2::rat) ^ 53 \<le> 2 ^ 1024"
    by (rule power_increasing) simp_all
  finally have small: "\<not> pow2 1024 \<le> (of_int n :: rat)"
    by (simp add: pow2_def)
  show ?thesis
    using assms(1) k0 small
    by (simp add: to_double_def Let_def fl kmax v)
qed

text \<open>Two checks of the rounding: one tenth is not a double, and \<open>2\<^sup>5\<^sup>3 + 1\<close> is a tie.\<close>

lemma to_double_tenth: "to_double (1 / 10) = Fin (3602879701896397 / 36028797018963968)"
  by code_simp

lemma to_double_ties_to_even: "to_double 9007199254740993 = Fin 9007199254740992"
  by code_simp

lemma parseFloat_zero: "parseFloat ''0'' = Fin 0"
  by (simp add: parseFloat_def split_sign_def is_white_def is_digit_def digits_val_def
      digit_val_def exponent_part_def pow10_def to_double_def)

lemma parseFloat_non_numeric:
  assumes "\<not> is_digit c" "c \<notin> set ''+-.I''" "\<not> is_white c"
  shows "parseFloat (c # cs) = NaN"
  using assms by (simp add: parseFloat_def split_sign_def)

lemma parseResponseId_100: "parseResponseId ''resp_100'' = Fin 100"
  by code_simp

lemma parseResponseId_99: "parseResponseId ''resp_99'' = Fin 99"
  by code_simp

lemma parseResponseId_7: "parseResponseId ''resp_7'' = Fin 7"
  by code_simp

lemma parseResponseId_5: "parseResponseId ''resp_5'' = Fin 5"
  by code_simp

lemma jle_refl: "a \<noteq> NaN \<Longrightarrow> jle a a"
  by (cases a) auto

lemma listener_randomUUID [simp]: "listener (snd (randomUUID w)) = listener w"
  by (simp add: randomUUID_def)

text \<open>One step of the loop: a handler that returns, and one that throws.\<close>

lemma forEach_handler_returns:
  assumes "listener w h ev = Returns"
  shows "forEach_handler p (h # rest) t ev w
      = forEach_handler p rest t ev (emit (ListenerCall h ev) w)"
  using assms by (subst forEach_handler.simps) simp

lemma forEach_handler_throws:
  assumes "listener w h ev = Throws err"
  shows "forEach_handler p (h # rest) t ev w =
           Option.bind
             (handleError p err
                (emit (ConsoleError (handler_error_line t)) (emit (ListenerCall h ev) w)))
             (\<lambda>(r, w4). case r of
                           Raise e \<Rightarrow> Some (Raise e, w4)
                         | Normal \<Rightarrow> forEach_handler p rest t ev w4)"
  using assms
  by (subst forEach_handler.simps)
    (simp add: handleError_def triggerEvent_def Let_def split_beta
      split: thrown.splits option.splits)

text \<open>Handlers that all return are called once each, in order, and nothing else happens.\<close>

lemma forEach_handler_all_return:
  assumes "\<forall>h \<in> set hs. listener w h ev = Returns"
  shows "forEach_handler p hs t ev w =
           Some (Normal, w\<lparr>effects := effects w @ map (\<lambda>h. ListenerCall h ev) hs\<rparr>)"
  using assms
proof (induction hs arbitrary: w)
  case Nil
  show ?case by (subst forEach_handler.simps) simp
next
  case (Cons h hs)
  have "forEach_handler p (h # hs) t ev w = forEach_handler p hs t ev (emit (ListenerCall h ev) w)"
    using Cons.prems by (subst forEach_handler.simps) simp
  also have "\<dots> = Some (Normal, (emit (ListenerCall h ev) w)
      \<lparr>effects := effects (emit (ListenerCall h ev) w) @ map (\<lambda>h. ListenerCall h ev) hs\<rparr>)"
    using Cons.prems by (intro Cons.IH) simp
  also have "\<dots> = Some (Normal, w\<lparr>effects := effects w @ map (\<lambda>h. ListenerCall h ev) (h # hs)\<rparr>)"
    by (simp add: emit_def)
  finally show ?case .
qed

lemma triggerEvent_all_return:
  assumes "\<forall>h \<in> set (handlers_of p t). listener w h ev = Returns"
  shows "triggerEvent p t ev w =
           Some (Normal, w\<lparr>effects := effects w @ map (\<lambda>h. ListenerCall h ev) (handlers_of p t)\<rparr>)"
  using assms
  by (auto simp: triggerEvent_def handlers_of_def forEach_handler_all_return split: option.splits)

section \<open>Audio events\<close>

text \<open>
  C1. An audio-delta event whose response suffix is at least the Interrupt Cursor
  (\<^verbatim>\<open>lastInterruptTimestamp <= timestamp\<close>, equality included) is handed to the audio-chunk
  sink with its \<^verbatim>\<open>delta\<close>, once, when a sink is set; one whose suffix is strictly below the
  cursor changes nothing: no sink call and no listener call.
\<close>

theorem audio_delta_boundary:
  assumes "etype ev = ''response.audio.delta''"
  shows "(jle (lastInterruptTimestamp p) (parseResponseId (response_id ev)) \<longrightarrow>
            processServerEvent p ev w =
              Some (Normal, p, case onAudioChunk p of
                                 None \<Rightarrow> w
                               | Some cb \<Rightarrow> emit (AudioChunkCall cb (delta ev)) w))
       \<and> (jlt (parseResponseId (response_id ev)) (lastInterruptTimestamp p) \<longrightarrow>
            processServerEvent p ev w = Some (Normal, p, w))"
  using assms by (auto simp: processServerEvent_def handleAudioResponse_def dest: jlt_not_jle)

theorem audio_delta_boundary_witness:
  "processServerEvent interrupted_processor
       (server_event ''response.audio.delta'' ''resp_100'' ''BBB='') quiet_world
     = Some (Normal, interrupted_processor, emit (AudioChunkCall 10 ''BBB='') quiet_world)
   \<and> processServerEvent interrupted_processor
       (server_event ''response.audio.delta'' ''resp_99'' ''CCC='') quiet_world
     = Some (Normal, interrupted_processor, quiet_world)"
  using audio_delta_boundary [of "server_event ''response.audio.delta'' ''resp_100'' ''BBB=''"
      interrupted_processor quiet_world]
    audio_delta_boundary [of "server_event ''response.audio.delta'' ''resp_99'' ''CCC=''"
      interrupted_processor quiet_world]
  by (simp add: server_event_def interrupted_processor_def sample_processor_def on_def
      new_processor_def parseResponseId_100 parseResponseId_99)

text \<open>
  C10. An audio-delta or audio-done event never reaches a listener, whatever the cursor
  and whatever is registered under its type: the call returns normally, leaves the
  processor as it was, and the effects it adds hold no listener call.
\<close>

theorem audio_events_reach_no_listener:
  assumes "etype ev = ''response.audio.delta'' \<or> etype ev = ''response.audio.done''"
  shows "\<exists>es. processServerEvent p ev w = Some (Normal, p, w\<lparr>effects := effects w @ es\<rparr>)
              \<and> (\<forall>cb e. ListenerCall cb e \<notin> set es)"
proof (cases "processServerEvent p ev w = Some (Normal, p, w)")
  case True
  then have "processServerEvent p ev w = Some (Normal, p, w\<lparr>effects := effects w @ []\<rparr>)"
    by simp
  then show ?thesis by (metis empty_iff list.set(1))
next
  case False
  with assms obtain cb where
    "processServerEvent p ev w = Some (Normal, p, emit (AudioChunkCall cb (delta ev)) w)"
    by (auto simp: processServerEvent_def handleAudioResponse_def split: option.splits if_splits)
  then have "processServerEvent p ev w =
      Some (Normal, p, w\<lparr>effects := effects w @ [AudioChunkCall cb (delta ev)]\<rparr>)"
    by (simp add: emit_def)
  moreover have "\<forall>c e. ListenerCall c e \<notin> set [AudioChunkCall cb (delta ev)]" by simp
  ultimately show ?thesis by blast
qed

theorem audio_events_reach_no_listener_witness:
  "handlers_of sample_processor ''response.audio.delta'' = [5]
   \<and> (\<exists>es. processServerEvent sample_processor
              (server_event ''response.audio.delta'' ''resp_100'' ''AAA='') quiet_world
            = Some (Normal, sample_processor, quiet_world\<lparr>effects := effects quiet_world @ es\<rparr>)
          \<and> (\<forall>cb e. ListenerCall cb e \<notin> set es))"
  using audio_events_reach_no_listener
      [of "server_event ''response.audio.delta'' ''resp_100'' ''AAA=''" sample_processor quiet_world]
  by (simp add: server_event_def handlers_of_def sample_processor_def on_def new_processor_def)

section \<open>Interrupt signals\<close>

text \<open>
  C7. A \<^verbatim>\<open>response.audio.cancel\<close> event sets the Interrupt Cursor to the event's response
  suffix, then calls the audio-interrupt sink, then the audio-fade-out sink, each when it
  is set. The console line written between the assignment and the sinks shows the new
  cursor, so the trace fixes the order.
\<close>

theorem audio_cancel_order:
  assumes "etype ev = ''response.audio.cancel''"
  shows "processServerEvent p ev w =
           Some (Normal, p\<lparr>lastInterruptTimestamp := parseResponseId (response_id ev)\<rparr>,
                 w\<lparr>effects := effects w
                      @ [ConsoleLog ''lastInterruptTimestamp'' (parseResponseId (response_id ev))]
                      @ (case onAudioInterrupt p of None \<Rightarrow> [] | Some cb \<Rightarrow> [AudioInterruptCall cb])
                      @ (case onAudioFadeOut p of None \<Rightarrow> [] | Some cb \<Rightarrow> [AudioFadeOutCall cb])\<rparr>)"
  using assms
  by (simp add: processServerEvent_def handleAudioInterrupt_def emit_def split: option.splits)

theorem audio_cancel_order_witness:
  "processServerEvent sample_processor
       (server_event ''response.audio.cancel'' ''resp_100'' []) quiet_world
     = Some (Normal, interrupted_processor,
             quiet_world\<lparr>effects := [ConsoleLog ''lastInterruptTimestamp'' (Fin 100),
                                      AudioInterruptCall 11, AudioFadeOutCall 12]\<rparr>)"
  using audio_cancel_order
      [of "server_event ''response.audio.cancel'' ''resp_100'' []" sample_processor quiet_world]
  by (simp add: server_event_def interrupted_processor_def sample_processor_def on_def
      new_processor_def parseResponseId_100 quiet_world_def)

lemma cancel_sets_cursor:
  assumes "etype ev = ''response.audio.cancel''"
  shows "\<exists>w'. processServerEvent p ev w =
           Some (Normal, p\<lparr>lastInterruptTimestamp := parseResponseId (response_id ev)\<rparr>, w')"
  using assms by (simp add: processServerEvent_def handleAudioInterrupt_def Let_def)

lemma processServerEvents_cancels:
  assumes "\<forall>ev \<in> set evs. etype ev = ''response.audio.cancel''" "evs \<noteq> []"
  shows "\<exists>w'. processServerEvents p evs w =
           Some (p\<lparr>lastInterruptTimestamp := parseResponseId (response_id (last evs))\<rparr>, w')"
  using assms
proof (induction evs arbitrary: p w)
  case Nil
  then show ?case by simp
next
  case (Cons ev evs)
  from Cons.prems obtain w1 where
    step: "processServerEvent p ev w =
      Some (Normal, p\<lparr>lastInterruptTimestamp := parseResponseId (response_id ev)\<rparr>, w1)"
    using cancel_sets_cursor [of ev p w] by auto
  show ?case
  proof (cases "evs = []")
    case True
    with step show ?thesis by simp
  next
    case False
    with Cons.prems Cons.IH [of "p\<lparr>lastInterruptTimestamp := parseResponseId (response_id ev)\<rparr>" w1]
    show ?thesis using step by auto
  qed
qed

lemma sorted_jle_last:
  assumes "sorted_wrt jle xs" "NaN \<notin> set xs" "xs \<noteq> []"
  shows "\<forall>x \<in> set xs. jle x (last xs)"
  using assms
proof (induction xs)
  case Nil
  then show ?case by simp
next
  case (Cons x xs)
  show ?case
  proof (cases "xs = []")
    case True
    with Cons.prems show ?thesis by (simp add: jle_refl)
  next
    case False
    with Cons show ?thesis by auto
  qed
qed

text \<open>
  C2, as the code has it. \<^verbatim>\<open>handleAudioInterrupt\<close> overwrites the cursor: after a non-empty
  sequence of interrupt signals the Interrupt Cursor is the suffix of the last one, and
  the rest of the processor is as before. That is the largest suffix seen when the
  suffixes are numbers that arrive in non-decreasing order. \<^verbatim>\<open>resetInterruptTimestamp\<close> sets
  the cursor to zero.
\<close>

theorem interrupt_cursor_is_last_signal:
  assumes "\<forall>ev \<in> set evs. etype ev = ''response.audio.cancel''" and "evs \<noteq> []"
  shows "\<exists>p' w'. processServerEvents p evs w = Some (p', w')
           \<and> p' = p\<lparr>lastInterruptTimestamp := parseResponseId (response_id (last evs))\<rparr>
           \<and> (sorted_wrt jle (map (parseResponseId \<circ> response_id) evs)
                \<and> NaN \<notin> set (map (parseResponseId \<circ> response_id) evs)
               \<longrightarrow> (\<forall>ev \<in> set evs. jle (parseResponseId (response_id ev)) (lastInterruptTimestamp p')))
           \<and> lastInterruptTimestamp (resetInterruptTimestamp p') = Fin 0"
proof -
  from processServerEvents_cancels [OF assms, of p w] obtain w' where
    run: "processServerEvents p evs w =
      Some (p\<lparr>lastInterruptTimestamp := parseResponseId (response_id (last evs))\<rparr>, w')" ..
  let ?sfx = "map (parseResponseId \<circ> response_id) evs"
  have "\<forall>ev \<in> set evs. jle (parseResponseId (response_id ev)) (parseResponseId (response_id (last evs)))"
    if "sorted_wrt jle ?sfx" "NaN \<notin> set ?sfx"
  proof -
    from that assms(2) have "\<forall>x \<in> set ?sfx. jle x (last ?sfx)"
      by (intro sorted_jle_last) simp_all
    with assms(2) show ?thesis by (simp add: last_map)
  qed
  with run show ?thesis by (auto simp: resetInterruptTimestamp_def)
qed

theorem interrupt_cursor_is_last_signal_witness:
  "map_option (lastInterruptTimestamp \<circ> fst)
     (processServerEvents (new_processor None None None None)
        [cancel_event ''resp_5'', cancel_event ''resp_7''] quiet_world) = Some (Fin 7)
   \<and> jle (parseResponseId ''resp_5'') (Fin 7)"
proof -
  let ?evs = "[cancel_event ''resp_5'', cancel_event ''resp_7'']"
  have cancels: "\<forall>ev \<in> set ?evs. etype ev = ''response.audio.cancel''" and ne: "?evs \<noteq> []"
    by (simp_all add: cancel_event_def server_event_def)
  have sfx: "map (parseResponseId \<circ> response_id) ?evs = [Fin 5, Fin 7]"
    by (simp add: cancel_event_def server_event_def parseResponseId_5 parseResponseId_7)
  have ordered: "sorted_wrt jle (map (parseResponseId \<circ> response_id) ?evs)
      \<and> NaN \<notin> set (map (parseResponseId \<circ> response_id) ?evs)"
    unfolding sfx by simp
  from interrupt_cursor_is_last_signal [OF cancels ne, of "new_processor None None None None" quiet_world]
  obtain p' w' where
    run: "processServerEvents (new_processor None None None None) ?evs quiet_world = Some (p', w')"
    and cursor: "p' = (new_processor None None None None)
        \<lparr>lastInterruptTimestamp := parseResponseId (response_id (last ?evs))\<rparr>"
    and largest: "sorted_wrt jle (map (parseResponseId \<circ> response_id) ?evs)
        \<and> NaN \<notin> set (map (parseResponseId \<circ> response_id) ?evs)
        \<longrightarrow> (\<forall>ev \<in> set ?evs. jle (parseResponseId (response_id ev)) (lastInterruptTimestamp p'))"
    by blast
  have "lastInterruptTimestamp p' = Fin 7"
    using cursor by (simp add: cancel_event_def server_event_def parseResponseId_7)
  moreover from largest ordered
  have "\<forall>ev \<in> set ?evs. jle (parseResponseId (response_id ev)) (lastInterruptTimestamp p')"
    by blast
  ultimately show ?thesis
    using run by (simp add: cancel_event_def server_event_def)
qed

text \<open>
  C2 as stated fails: after the signals for responses 7 and 5, in that order, the cursor
  is 5, below the largest suffix seen, and it went down without a reset.
\<close>

theorem interrupt_cursor_decreases_counterexample:
  "map_option (lastInterruptTimestamp \<circ> fst)
     (processServerEvents (new_processor None None None None)
        [cancel_event ''resp_7'', cancel_event ''resp_5''] quiet_world) = Some (Fin 5)
   \<and> parseResponseId ''resp_7'' = Fin 7 \<and> jlt (Fin 5) (Fin 7)"
  by (simp add: cancel_event_def server_event_def processServerEvent_def handleAudioInterrupt_def
      parseResponseId_7 parseResponseId_5 new_processor_def)

section \<open>Text events\<close>

text \<open>
  C3. A text-delta or text-done event whose response suffix is strictly below the
  Interrupt Cursor is dropped: the call changes nothing and calls no listener. Any other
  such event goes, unchanged, through \<^verbatim>\<open>triggerEvent\<close> under its own type; when the
  listeners registered there return, each is called once with the event, in order.
\<close>

theorem text_event_filter:
  assumes "etype ev = ''response.text.delta'' \<or> etype ev = ''response.text.done''"
  shows "(jlt (parseResponseId (response_id ev)) (lastInterruptTimestamp p) \<longrightarrow>
            processServerEvent p ev w = Some (Normal, p, w))
       \<and> (\<not> jlt (parseResponseId (response_id ev)) (lastInterruptTimestamp p) \<longrightarrow>
            processServerEvent p ev w =
              map_option (\<lambda>(r, w1). (r, p, w1)) (triggerEvent p (etype ev) ev w)
            \<and> ((\<forall>h \<in> set (handlers_of p (etype ev)). listener w h ev = Returns) \<longrightarrow>
                 processServerEvent p ev w =
                   Some (Normal, p, w\<lparr>effects := effects w
                           @ map (\<lambda>h. ListenerCall h ev) (handlers_of p (etype ev))\<rparr>)))"
proof -
  have not_audio: "etype ev \<noteq> ''response.audio.delta''" "etype ev \<noteq> ''response.audio.done''"
    "etype ev \<noteq> ''response.audio.cancel''"
    using assms by auto
  show ?thesis
    using assms not_audio
    by (auto simp: processServerEvent_def shouldFilterTextEvent_def triggerEvent_all_return)
qed

theorem text_event_filter_witness:
  "processServerEvent interrupted_processor
       (server_event ''response.text.delta'' ''resp_99'' ''old'') quiet_world
     = Some (Normal, interrupted_processor, quiet_world)
   \<and> processServerEvent interrupted_processor
       (server_event ''response.text.delta'' ''resp_100'' ''new'') quiet_world
     = Some (Normal, interrupted_processor,
             quiet_world\<lparr>effects :=
               [ListenerCall 5 (server_event ''response.text.delta'' ''resp_100'' ''new'')]\<rparr>)"
proof -
  let ?old = "server_event ''response.text.delta'' ''resp_99'' ''old''"
  let ?new = "server_event ''response.text.delta'' ''resp_100'' ''new''"
  have cursor: "lastInterruptTimestamp interrupted_processor = Fin 100"
    by (simp add: interrupted_processor_def)
  have hs: "handlers_of interrupted_processor ''response.text.delta'' = [5]"
    by (simp add: handlers_of_def interrupted_processor_def sample_processor_def on_def
        new_processor_def)
  have t_old: "etype ?old = ''response.text.delta'' \<or> etype ?old = ''response.text.done''"
    and t_new: "etype ?new = ''response.text.delta'' \<or> etype ?new = ''response.text.done''"
    by (simp_all add: server_event_def)
  have stale: "jlt (parseResponseId (response_id ?old)) (lastInterruptTimestamp interrupted_processor)"
    by (simp add: cursor server_event_def parseResponseId_99)
  have fresh: "\<not> jlt (parseResponseId (response_id ?new)) (lastInterruptTimestamp interrupted_processor)"
    by (simp add: cursor server_event_def parseResponseId_100)
  have quiet: "\<forall>h \<in> set (handlers_of interrupted_processor (etype ?new)).
      listener quiet_world h ?new = Returns"
    by (simp add: quiet_world_def)
  have "processServerEvent interrupted_processor ?old quiet_world
      = Some (Normal, interrupted_processor, quiet_world)"
    using text_event_filter [OF t_old, of interrupted_processor quiet_world] stale by blast
  moreover have "processServerEvent interrupted_processor ?new quiet_world
      = Some (Normal, interrupted_processor, quiet_world\<lparr>effects := effects quiet_world
          @ map (\<lambda>h. ListenerCall h ?new) (handlers_of interrupted_processor (etype ?new))\<rparr>)"
    using text_event_filter [OF t_new, of interrupted_processor quiet_world] fresh quiet by blast
  moreover have "effects quiet_world
      @ map (\<lambda>h. ListenerCall h ?new) (handlers_of interrupted_processor (etype ?new))
      = [ListenerCall 5 ?new]"
    using hs by (simp add: quiet_world_def server_event_def)
  ultimately show ?thesis by simp
qed

section \<open>A stream around an interrupt\<close>

text \<open>
  Audio for response 100, its interrupt, then more audio and text. After the interrupt
  the cursor is 100: audio and text of response 99 are dropped, audio and text of
  response 100 still pass, the audio to the sink only and the text to its listener.
\<close>

lemma interrupt_scenario:
  "map_option (\<lambda>(p, w). (lastInterruptTimestamp p, effects w))
     (processServerEvents sample_processor
        [server_event ''response.audio.delta'' ''resp_100'' ''AAA='',
         cancel_event ''resp_100'',
         server_event ''response.audio.delta'' ''resp_100'' ''BBB='',
         server_event ''response.audio.delta'' ''resp_99'' ''CCC='',
         server_event ''response.text.delta'' ''resp_99'' ''old'',
         server_event ''response.text.delta'' ''resp_100'' ''new'']
        quiet_world)
   = Some (Fin 100,
           [AudioChunkCall 10 ''AAA='',
            ConsoleLog ''lastInterruptTimestamp'' (Fin 100),
            AudioInterruptCall 11, AudioFadeOutCall 12,
            AudioChunkCall 10 ''BBB='',
            ListenerCall 5 (server_event ''response.text.delta'' ''resp_100'' ''new'')])"
  by (simp add: processServerEvent_def handleAudioResponse_def handleAudioInterrupt_def
      shouldFilterTextEvent_def triggerEvent_def forEach_handler.simps
      sample_processor_def on_def new_processor_def quiet_world_def
      server_event_def cancel_event_def emit_def
      parseResponseId_100 parseResponseId_99)

section \<open>Numeric-suffix extraction\<close>

text \<open>
  C5, as the code has it. \<^verbatim>\<open>parseResponseId\<close> splits the identifier at its underscores and
  gives the second segment to \<^verbatim>\<open>parseFloat\<close>. An identifier whose second segment is missing
  or empty yields zero. A second segment that is there but starts with a character that
  is no digit, sign, dot, white space or \<^verbatim>\<open>I\<close>, such as \<^verbatim>\<open>abc\<close>, yields \<open>NaN\<close>, not zero.
\<close>

theorem parseResponseId_cases:
  "(second_segment rid = None \<or> second_segment rid = Some [] \<longrightarrow> parseResponseId rid = Fin 0)
   \<and> (\<forall>seg. second_segment rid = Some seg \<and> seg \<noteq> [] \<longrightarrow> parseResponseId rid = parseFloat seg)
   \<and> (\<forall>c cs. second_segment rid = Some (c # cs)
          \<and> \<not> is_digit c \<and> c \<notin> set ''+-.I'' \<and> \<not> is_white c
        \<longrightarrow> parseResponseId rid = NaN)"
  by (auto simp: parseResponseId_def parseFloat_zero parseFloat_non_numeric)

theorem parseResponseId_cases_witness:
  "parseResponseId ''resp'' = Fin 0 \<and> parseResponseId ''resp_'' = Fin 0
   \<and> parseResponseId ''resp_100'' = parseFloat ''100'' \<and> parseResponseId ''resp_abc'' = NaN"
proof -
  have "second_segment ''resp'' = None" "second_segment ''resp_'' = Some []"
    "second_segment ''resp_100'' = Some ''100''" "second_segment ''resp_abc'' = Some ''abc''"
    by (simp_all add: second_segment_def)
  moreover have "\<not> is_digit CHR ''a''" "CHR ''a'' \<notin> set ''+-.I''" "\<not> is_white CHR ''a''"
    by (simp_all add: is_digit_def is_white_def)
  ultimately show ?thesis
    using parseResponseId_cases [of "''resp''"] parseResponseId_cases [of "''resp_''"]
      parseResponseId_cases [of "''resp_100''"] parseResponseId_cases [of "''resp_abc''"]
    by auto
qed

text \<open>
  C5 as stated fails: the malformed identifier \<^verbatim>\<open>resp_abc\<close> does not parse to zero.
\<close>

theorem parseResponseId_malformed_counterexample:
  "parseResponseId ''resp_abc'' \<noteq> Fin 0"
  by (simp add: parseResponseId_def second_segment_def parseFloat_def split_sign_def
      is_digit_def is_white_def)

section \<open>Listeners that throw\<close>

text \<open>
  When the first handler under the error key throws on every event, a dispatch that
  reaches it never returns: each error event made for its exception is dispatched to it
  again.
\<close>

lemma forEach_handler_error_loop_aux:
  assumes "forEach_handler p hs t ev w = Some y"
  shows "\<not> (eventHandlers p ''error'' = Some (h # ehs)
            \<and> (\<forall>e. \<exists>m. listener w h e = Throws (Thrown m))
            \<and> (\<exists>rest. hs = h # rest))"
proof (rule forEach_handler.raw_induct [OF _ assms], goal_cases)
  case (1 f p hs t ev w y)
  note IH = "1"(1) and body = "1"(2)
  show ?case
  proof
    assume loop: "eventHandlers p ''error'' = Some (h # ehs)
            \<and> (\<forall>e. \<exists>m. listener w h e = Throws (Thrown m))
            \<and> (\<exists>rest. hs = h # rest)"
    then obtain rest m where hs: "hs = h # rest" and thr: "listener w h ev = Throws (Thrown m)"
      by blast
    let ?w2 = "emit (ConsoleError (handler_error_line t)) (emit (ListenerCall h ev) w)"
    let ?w3 = "snd (randomUUID ?w2)"
    let ?u = "fst (randomUUID ?w2)"
    from body hs thr loop
    obtain r w4 where inner: "f p (h # ehs) ''error'' (errorEvent ?u m) ?w3 = Some (r, w4)"
      by (auto simp: Let_def split_beta Option.bind_eq_Some_conv split: prod.splits)
    have "\<forall>e. \<exists>m. listener ?w3 h e = Throws (Thrown m)"
      using loop by simp
    with IH [OF inner] loop show False by blast
  qed
qed

lemma forEach_handler_error_loop:
  assumes "eventHandlers p ''error'' = Some (h # ehs)"
    and "\<forall>e. \<exists>m. listener w h e = Throws (Thrown m)"
  shows "forEach_handler p (h # rest) t ev w = None"
proof (cases "forEach_handler p (h # rest) t ev w")
  case None
  then show ?thesis .
next
  case (Some y)
  from forEach_handler_error_loop_aux [OF Some, of h ehs] assms show ?thesis by blast
qed

text \<open>
  What the \<^verbatim>\<open>try\<close>/\<^verbatim>\<open>catch\<close> achieves when the listeners under the error key return: the
  first listener's exception is reported, becomes one error event for each error
  listener, and the second listener is then called with the original event.
\<close>

lemma second_listener_still_called:
  assumes two: "eventHandlers p k = Some [h1, h2]"
    and first: "listener w h1 ev = Throws (Thrown m)"
    and second: "listener w h2 ev = Returns"
    and errs: "\<forall>h \<in> set (handlers_of p ''error'').
        listener w h (errorEvent (uuid_source w (uuid_next w)) m) = Returns"
  shows "\<exists>w'. triggerEvent p k ev w = Some (Normal, w')
           \<and> effects w' = effects w
                @ [ListenerCall h1 ev, ConsoleError (handler_error_line k)]
                @ map (\<lambda>h. ListenerCall h (errorEvent (uuid_source w (uuid_next w)) m))
                    (handlers_of p ''error'')
                @ [ListenerCall h2 ev]"
proof -
  define ee where "ee = errorEvent (uuid_source w (uuid_next w)) m"
  define line where "line = ConsoleError (handler_error_line k)"
  define w3 where "w3 = snd (randomUUID (emit line (emit (ListenerCall h1 ev) w)))"
  define w4 where
    "w4 = w3\<lparr>effects := effects w3 @ map (\<lambda>h. ListenerCall h ee) (handlers_of p ''error'')\<rparr>"
  have uuid: "fst (randomUUID (emit line (emit (ListenerCall h1 ev) w))) = uuid_source w (uuid_next w)"
    by (simp add: randomUUID_def emit_def)
  have w3_listener: "listener w3 = listener w"
    by (simp add: w3_def)
  have inner: "(case eventHandlers p ''error'' of
                  None \<Rightarrow> Some (Normal, w3)
                | Some ehs \<Rightarrow> forEach_handler p ehs ''error'' ee w3) = Some (Normal, w4)"
  proof (cases "eventHandlers p ''error''")
    case None
    then show ?thesis by (simp add: handlers_of_def w4_def)
  next
    case (Some ehs)
    with errs have "\<forall>h \<in> set ehs. listener w3 h ee = Returns"
      by (simp add: handlers_of_def w3_listener ee_def)
    from forEach_handler_all_return [OF this] Some show ?thesis
      by (simp add: handlers_of_def w4_def)
  qed
  have last: "forEach_handler p [h2] k ev w4 = Some (Normal, emit (ListenerCall h2 ev) w4)"
    using second forEach_handler_all_return [of "[h2]" w4 ev p k]
    by (simp add: w4_def w3_listener emit_def)
  have "forEach_handler p [h1, h2] k ev w =
      Option.bind
        (case eventHandlers p ''error'' of
           None \<Rightarrow> Some (Normal, w3)
         | Some ehs \<Rightarrow> forEach_handler p ehs ''error'' ee w3)
        (\<lambda>(r, w4). case r of
                      Raise e \<Rightarrow> Some (Raise e, w4)
                    | Normal \<Rightarrow> forEach_handler p [h2] k ev w4)"
    unfolding w3_def ee_def line_def
    by (subst forEach_handler.simps)
      (simp add: first Let_def split_beta uuid [unfolded line_def] cong: option.case_cong)
  also have "\<dots> = Some (Normal, emit (ListenerCall h2 ev) w4)"
    by (simp only: inner) (simp add: last)
  finally have run: "triggerEvent p k ev w = Some (Normal, emit (ListenerCall h2 ev) w4)"
    using two by (simp add: triggerEvent_def)
  have "effects (emit (ListenerCall h2 ev) w4) = effects w
      @ [ListenerCall h1 ev, ConsoleError (handler_error_line k)]
      @ map (\<lambda>h. ListenerCall h (errorEvent (uuid_source w (uuid_next w)) m))
          (handlers_of p ''error'')
      @ [ListenerCall h2 ev]"
    by (simp add: w4_def w3_def line_def ee_def randomUUID_def emit_def)
  with run show ?thesis by blast
qed

text \<open>
  For instance, with \<open>1\<close> and \<open>2\<close> under \<^verbatim>\<open>session.updated\<close> and \<open>3\<close> under \<^verbatim>\<open>error\<close>, where
  \<open>1\<close> throws: \<open>1\<close> is called, its error is reported and sent to \<open>3\<close>, and \<open>2\<close> is called.
\<close>

lemma update_listeners_dispatch:
  "map_option (effects \<circ> snd)
     (triggerEvent update_listeners ''session.updated''
        (server_event ''session.updated'' [] []) throwing_world)
   = Some [ListenerCall 1 (server_event ''session.updated'' [] []),
           ConsoleError (handler_error_line ''session.updated''),
           ListenerCall 3 (errorEvent ''uuid'' (Some ''boom'')),
           ListenerCall 2 (server_event ''session.updated'' [] [])]"
proof -
  have hs: "eventHandlers update_listeners ''session.updated'' = Some [1, 2]"
    and es: "handlers_of update_listeners ''error'' = [3]"
    by (simp_all add: update_listeners_def on_def new_processor_def handlers_of_def)
  have "listener throwing_world 1 (server_event ''session.updated'' [] [])
      = Throws (Thrown (Some ''boom''))"
    and "listener throwing_world 2 (server_event ''session.updated'' [] []) = Returns"
    and "\<forall>h \<in> set (handlers_of update_listeners ''error'').
      listener throwing_world h
        (errorEvent (uuid_source throwing_world (uuid_next throwing_world)) (Some ''boom''))
      = Returns"
    by (simp_all add: throwing_world_def es)
  from second_listener_still_called [OF hs this] show ?thesis
    by (auto simp: es throwing_world_def quiet_world_def)
qed

text \<open>
  A listener that throws \<^verbatim>\<open>null\<close> or \<^verbatim>\<open>undefined\<close> is not contained: \<^verbatim>\<open>handleError\<close> fails
  reading its message, inside the \<^verbatim>\<open>catch\<close> block, and the \<^verbatim>\<open>TypeError\<close> ends the dispatch.
\<close>

lemma nullish_throw_escapes:
  assumes "eventHandlers p k = Some (h1 # rest)"
    and "listener w h1 ev = Throws Nullish"
  shows "\<exists>w'. triggerEvent p k ev w = Some (Raise TypeError, w')
           \<and> effects w' = effects w
                @ [ListenerCall h1 ev, ConsoleError (handler_error_line k)]"
proof -
  have "forEach_handler p (h1 # rest) k ev w
      = Some (Raise TypeError, snd (randomUUID (emit (ConsoleError (handler_error_line k))
               (emit (ListenerCall h1 ev) w))))"
    apply (subst forEach_handler.simps)
    using assms(2)
    apply (simp add: Let_def split_beta)
    done
  then show ?thesis
    using assms(1) by (simp add: triggerEvent_def randomUUID_def)
qed

text \<open>
  C6 at the error key. Listeners \<open>1\<close> and \<open>2\<close> are registered under \<^verbatim>\<open>error\<close> and \<open>1\<close>
  throws. Dispatching an error event from the server never returns, so listener \<open>2\<close> is
  never called with it.
\<close>

theorem error_listener_recursion:
  "triggerEvent error_listeners ''error'' (server_event ''error'' [] []) throwing_world = None
   \<and> processServerEvent error_listeners (server_event ''error'' [] []) throwing_world = None"
proof -
  have hs: "eventHandlers error_listeners ''error'' = Some [1, 2]"
    by (simp add: error_listeners_def on_def new_processor_def)
  have thr: "\<forall>e. \<exists>m. listener throwing_world 1 e = Throws (Thrown m)"
    by (simp add: throwing_world_def)
  have "triggerEvent error_listeners ''error'' (server_event ''error'' [] []) throwing_world = None"
    using forEach_handler_error_loop [OF hs thr] by (simp add: triggerEvent_def hs)
  then show ?thesis
    by (simp add: processServerEvent_def server_event_def)
qed

section \<open>Sending events\<close>

text \<open>
  C8, as the code has it. For a connected session \<^verbatim>\<open>sendEvent\<close> returns normally. An event
  other than \<^verbatim>\<open>input_audio_buffer.append\<close> is written to the debug console, then serialised
  and sent, and only then handed to the observer \<^verbatim>\<open>onSendEvent\<close>, when one is set. An
  audio-append event is sent and neither logged nor handed to the observer.
\<close>

theorem sendEvent_order:
  assumes "ws c \<noteq> None" and "isConnected c"
  shows "sendEvent c ev w =
           (Normal, w\<lparr>effects := effects w
              @ (if etype ev \<noteq> ''input_audio_buffer.append'' then [ConsoleDebug ev] else [])
              @ [WsSend ev]
              @ (if etype ev \<noteq> ''input_audio_buffer.append''
                 then (case onSendEvent c of None \<Rightarrow> [] | Some cb \<Rightarrow> [SendEventCall cb ev])
                 else [])\<rparr>)"
  using assms by (simp add: sendEvent_def emit_def split: option.splits)

theorem sendEvent_order_witness:
  "sendEvent open_conversation (client_event ''input_audio_buffer.append'' ''AAAA'') quiet_world
     = (Normal, quiet_world\<lparr>effects :=
          [WsSend (client_event ''input_audio_buffer.append'' ''AAAA'')]\<rparr>)
   \<and> sendEvent open_conversation (client_event ''response.create'' []) quiet_world
     = (Normal, quiet_world\<lparr>effects :=
          [ConsoleDebug (client_event ''response.create'' []),
           WsSend (client_event ''response.create'' []),
           SendEventCall 9 (client_event ''response.create'' [])]\<rparr>)"
  using sendEvent_order [of open_conversation
      "client_event ''input_audio_buffer.append'' ''AAAA''" quiet_world]
    sendEvent_order [of open_conversation "client_event ''response.create'' []" quiet_world]
  by (simp add: open_conversation_def client_event_def quiet_world_def)

text \<open>
  C8 as stated fails: for a \<^verbatim>\<open>session.update\<close> event the observer is called after the
  event has been sent, not before.
\<close>

theorem sendEvent_observer_after_send_counterexample:
  "effects (snd (sendEvent open_conversation (client_event ''session.update'' []) quiet_world))
     = [ConsoleDebug (client_event ''session.update'' []),
        WsSend (client_event ''session.update'' []),
        SendEventCall 9 (client_event ''session.update'' [])]"
  by (simp add: sendEvent_def open_conversation_def client_event_def quiet_world_def emit_def)

section \<open>Ending a session\<close>

text \<open>
  C4, as the code has it. When no device close fails and the \<^verbatim>\<open>disconnected\<close> listeners
  return, \<^verbatim>\<open>endSession\<close> closes what the session holds, forgets the socket, clears the
  connected flag and dispatches one \<^verbatim>\<open>disconnected\<close> event, on every call. When closing the
  capture device fails, the error is reported on the console and thrown again to the
  caller, and nothing else is done.
\<close>

theorem endSession_emits_or_rethrows:
  "((\<forall>hist d. device_close w hist d = None)
      \<and> (\<forall>h \<in> set (handlers_of (eventProcessor c) ''disconnected'').
            listener w h disconnected = Returns)
     \<longrightarrow> endSession c w =
           Some (Normal, c\<lparr>ws := None, isConnected := False\<rparr>,
                 w\<lparr>effects := effects w @ teardown_calls c
                      @ map (\<lambda>h. ListenerCall h disconnected)
                          (handlers_of (eventProcessor c) ''disconnected'')\<rparr>))
   \<and> (audioInput c \<noteq> None \<and> device_close w (effects w) CaptureDevice = Some (Thrown m)
     \<longrightarrow> endSession c w =
           Some (Raise (Thrown m), c,
                 w\<lparr>effects := effects w
                      @ [DeviceClose CaptureDevice, ConsoleError ''Error in conversation:'']\<rparr>))"
proof (intro conjI impI)
  assume "(\<forall>hist d. device_close w hist d = None)
      \<and> (\<forall>h \<in> set (handlers_of (eventProcessor c) ''disconnected'').
            listener w h disconnected = Returns)"
  then have closes: "\<forall>hist d. device_close w hist d = None"
    and quiet: "\<forall>h \<in> set (handlers_of (eventProcessor c) ''disconnected'').
            listener w h disconnected = Returns"
    by blast+
  have etype: "etype disconnected = ''disconnected''"
    by (simp add: disconnected_def)
  have trig: "\<And>w'. listener w' = listener w \<Longrightarrow>
      triggerEvent (eventProcessor c) ''disconnected'' disconnected w' =
        Some (Normal, w'\<lparr>effects := effects w' @ map (\<lambda>h. ListenerCall h disconnected)
                          (handlers_of (eventProcessor c) ''disconnected'')\<rparr>)"
    using quiet by (intro triggerEvent_all_return) simp
  show "endSession c w =
           Some (Normal, c\<lparr>ws := None, isConnected := False\<rparr>,
                 w\<lparr>effects := effects w @ teardown_calls c
                      @ map (\<lambda>h. ListenerCall h disconnected)
                          (handlers_of (eventProcessor c) ''disconnected'')\<rparr>)"
    using closes
    by (cases "audioInput c"; cases "audioOutput c"; cases "ws c")
      (simp_all add: endSession_def close_device_def processInternalEvent_def etype trig
        teardown_calls_def emit_def)
next
  assume "audioInput c \<noteq> None \<and> device_close w (effects w) CaptureDevice = Some (Thrown m)"
  then show "endSession c w =
           Some (Raise (Thrown m), c,
                 w\<lparr>effects := effects w
                      @ [DeviceClose CaptureDevice, ConsoleError ''Error in conversation:'']\<rparr>)"
    by (auto simp: endSession_def close_device_def endSession_catch_def
        Conversation_handleError_def emit_def)
qed

theorem endSession_emits_or_rethrows_witness:
  "endSession open_conversation quiet_world =
     Some (Normal, open_conversation\<lparr>ws := None, isConnected := False\<rparr>,
           quiet_world\<lparr>effects :=
             [DeviceClose CaptureDevice, DeviceClose RenderDevice, WsClose,
              ListenerCall 7 disconnected]\<rparr>)
   \<and> endSession (open_conversation\<lparr>ws := None, isConnected := False\<rparr>)
        (strict_world\<lparr>effects := [DeviceClose CaptureDevice]\<rparr>) =
     Some (Raise (Thrown (Some ''InvalidStateError'')),
           open_conversation\<lparr>ws := None, isConnected := False\<rparr>,
           strict_world\<lparr>effects :=
             [DeviceClose CaptureDevice, DeviceClose CaptureDevice,
              ConsoleError ''Error in conversation:'']\<rparr>)"
proof -
  let ?c2 = "open_conversation\<lparr>ws := None, isConnected := False\<rparr>"
  let ?w2 = "strict_world\<lparr>effects := [DeviceClose CaptureDevice]\<rparr>"
  have hs: "handlers_of (eventProcessor open_conversation) ''disconnected'' = [7]"
    by (simp add: handlers_of_def open_conversation_def on_def new_processor_def)
  have calm: "(\<forall>hist d. device_close quiet_world hist d = None)
      \<and> (\<forall>h \<in> set (handlers_of (eventProcessor open_conversation) ''disconnected'').
            listener quiet_world h disconnected = Returns)"
    by (simp add: quiet_world_def)
  have calls: "teardown_calls open_conversation
      = [DeviceClose CaptureDevice, DeviceClose RenderDevice, WsClose]"
    by (simp add: teardown_calls_def open_conversation_def)
  have rejects: "audioInput ?c2 \<noteq> None
      \<and> device_close ?w2 (effects ?w2) CaptureDevice = Some (Thrown (Some ''InvalidStateError''))"
    by (simp add: open_conversation_def strict_world_def quiet_world_def)
  have "endSession open_conversation quiet_world =
      Some (Normal, open_conversation\<lparr>ws := None, isConnected := False\<rparr>,
        quiet_world\<lparr>effects := effects quiet_world @ teardown_calls open_conversation
          @ map (\<lambda>h. ListenerCall h disconnected)
              (handlers_of (eventProcessor open_conversation) ''disconnected'')\<rparr>)"
    using endSession_emits_or_rethrows [of quiet_world open_conversation] calm by blast
  moreover have "endSession ?c2 ?w2 =
      Some (Raise (Thrown (Some ''InvalidStateError'')), ?c2,
        ?w2\<lparr>effects := effects ?w2
          @ [DeviceClose CaptureDevice, ConsoleError ''Error in conversation:'']\<rparr>)"
    using endSession_emits_or_rethrows [of ?w2 ?c2 "Some ''InvalidStateError''"] rejects by blast
  ultimately show ?thesis
    by (simp add: hs calls quiet_world_def)
qed

text \<open>\<^verbatim>\<open>close()\<close> is the variant that reports the error and does not throw it again.\<close>

lemma close_swallows:
  assumes "endSession c w = Some (Raise (Thrown m), c1, w1)"
  shows "close c w = Some (Normal, c1, emit (ConsoleError ''Error in conversation:'') w1)"
  using assms by (simp add: close_def Conversation_handleError_def)

text \<open>
  C4 as stated fails. Where closing a closed device is harmless, two calls in succession
  both return and the \<^verbatim>\<open>disconnected\<close> listener is called twice. Where closing a closed
  device rejects, the second call throws that error to its caller.
\<close>

theorem endSession_twice_counterexample:
  "endSession_twice open_conversation quiet_world =
     Some (Normal, Normal, open_conversation\<lparr>ws := None, isConnected := False\<rparr>,
           quiet_world\<lparr>effects :=
             [DeviceClose CaptureDevice, DeviceClose RenderDevice, WsClose,
              ListenerCall 7 disconnected,
              DeviceClose CaptureDevice, DeviceClose RenderDevice,
              ListenerCall 7 disconnected]\<rparr>)
   \<and> endSession_twice open_conversation strict_world =
     Some (Normal, Raise (Thrown (Some ''InvalidStateError'')),
           open_conversation\<lparr>ws := None, isConnected := False\<rparr>,
           strict_world\<lparr>effects :=
             [DeviceClose CaptureDevice, DeviceClose RenderDevice, WsClose,
              ListenerCall 7 disconnected,
              DeviceClose CaptureDevice, ConsoleError ''Error in conversation:'']\<rparr>)"
  by (simp add: endSession_twice_def endSession_def close_device_def endSession_catch_def
      Conversation_handleError_def processInternalEvent_def triggerEvent_def
      forEach_handler.simps open_conversation_def quiet_world_def strict_world_def
      disconnected_def on_def new_processor_def emit_def)

section \<open>Volume\<close>

lemma clamp01_Math: "v \<noteq> NaN \<Longrightarrow> Math_max (Fin 0) (Math_min (Fin 1) v) = clamp01 v"
  by (cases v) (auto simp: Math_max_def Math_min_def clamp01_def)

lemma clamp01_range: "v \<noteq> NaN \<Longrightarrow> jle (Fin 0) (clamp01 v) \<and> jle (clamp01 v) (Fin 1)"
  by (cases v) (auto simp: clamp01_def)

lemma clamp01_finite: "v \<noteq> NaN \<Longrightarrow> \<exists>x. clamp01 v = Fin x"
  by (cases v) (auto simp: clamp01_def)

text \<open>
  C9, as the code has it. For every number \<open>v\<close> other than \<open>NaN\<close>, \<^verbatim>\<open>setVolume(v)\<close> returns
  normally and stores \<open>v\<close> clamped to the interval from 0 to 1, which \<^verbatim>\<open>getVolume\<close> returns.
  With a render device the gain takes that value at once; \<^verbatim>\<open>fadeOutAudio\<close> then ramps the
  gain down and leaves the stored volume alone, and when its timer runs the gain is set
  to the stored volume again.
\<close>

theorem setVolume_clamps_and_survives_fade:
  assumes "v \<noteq> NaN"
  shows "\<exists>c1. setVolume v c = (Normal, c1)
           \<and> getVolume c1 = clamp01 v
           \<and> jle (Fin 0) (getVolume c1) \<and> jle (getVolume c1) (Fin 1)
           \<and> (audioOutput c \<noteq> None \<longrightarrow>
                map_option gain_value (audioOutput c1) = Some (clamp01 v)
                \<and> (\<exists>c2 w2 c3 w3. fadeOutAudio c1 w = (c2, w2)
                      \<and> getVolume c2 = clamp01 v
                      \<and> map_option gain_value (audioOutput c2) = Some ramp_target
                      \<and> run_timer c2 w2 = (Normal, c3, w3)
                      \<and> getVolume c3 = clamp01 v
                      \<and> map_option gain_value (audioOutput c3) = Some (clamp01 v)))"
proof -
  from assms obtain x where x: "clamp01 v = Fin x" using clamp01_finite by blast
  show ?thesis
  proof (cases "audioOutput c")
    case None
    with assms x show ?thesis
      using clamp01_range [OF assms]
      by (simp add: setVolume_def getVolume_def clamp01_Math)
  next
    case (Some out)
    let ?c1 = "c\<lparr>volume := Fin x, audioOutput := Some (out\<lparr>gain_value := Fin x\<rparr>)\<rparr>"
    let ?c2 = "c\<lparr>volume := Fin x, audioOutput := Some (out\<lparr>gain_value := ramp_target\<rparr>)\<rparr>"
    let ?w2 = "(emit (ExponentialRamp ramp_target) (emit (PostMessage Interrupt) w))
                 \<lparr>timers := timers w @ [2000]\<rparr>"
    have s: "setVolume v c = (Normal, ?c1)"
      using assms x Some by (simp add: setVolume_def clamp01_Math set_gain_value_def)
    have f: "fadeOutAudio ?c1 w = (?c2, ?w2)"
      by (simp add: fadeOutAudio_def)
    have "\<exists>w3. run_timer ?c2 ?w2 = (Normal, ?c1, w3)"
      by (cases "timers w")
        (simp_all add: run_timer_def fadeOutAudio_timeout_def set_gain_value_def)
    then obtain w3 where t: "run_timer ?c2 ?w2 = (Normal, ?c1, w3)" ..
    from s f t x Some show ?thesis
      using clamp01_range [OF assms] by (simp add: getVolume_def)
  qed
qed

theorem setVolume_clamps_and_survives_fade_witness:
  "fst (setVolume (Fin (3 / 2)) open_conversation) = Normal
   \<and> getVolume (snd (setVolume (Fin (3 / 2)) open_conversation)) = Fin 1
   \<and> map_option gain_value (audioOutput (snd (setVolume (Fin (3 / 2)) open_conversation)))
       = Some (Fin 1)
   \<and> (case fadeOutAudio (snd (setVolume (Fin (3 / 2)) open_conversation)) quiet_world of
        (c2, w2) \<Rightarrow>
          map_option gain_value (audioOutput c2) = Some ramp_target
          \<and> fst (run_timer c2 w2) = Normal
          \<and> map_option gain_value (audioOutput (fst (snd (run_timer c2 w2)))) = Some (Fin 1))"
proof -
  have v: "Fin (3 / 2) \<noteq> NaN" by simp
  have out: "audioOutput open_conversation \<noteq> None"
    by (simp add: open_conversation_def)
  have clamp: "clamp01 (Fin (3 / 2)) = Fin 1"
    by (simp add: clamp01_def)
  from setVolume_clamps_and_survives_fade [OF v, of open_conversation quiet_world] out
  obtain c1 c2 w2 c3 w3 where "setVolume (Fin (3 / 2)) open_conversation = (Normal, c1)"
    and "getVolume c1 = clamp01 (Fin (3 / 2))"
    and "map_option gain_value (audioOutput c1) = Some (clamp01 (Fin (3 / 2)))"
    and "fadeOutAudio c1 quiet_world = (c2, w2)"
    and "map_option gain_value (audioOutput c2) = Some ramp_target"
    and "run_timer c2 w2 = (Normal, c3, w3)"
    and "map_option gain_value (audioOutput c3) = Some (clamp01 (Fin (3 / 2)))"
    by blast
  then show ?thesis by (simp add: clamp)
qed

text \<open>
  C9 as stated fails at \<open>NaN\<close>: \<^verbatim>\<open>Math.max(0, Math.min(1, NaN))\<close> is \<open>NaN\<close>, which is stored
  and returned by \<^verbatim>\<open>getVolume\<close>, and it is in no interval.
\<close>

theorem setVolume_NaN_counterexample:
  "getVolume (snd (setVolume NaN open_conversation)) = NaN
   \<and> \<not> jle (Fin 0) (getVolume (snd (setVolume NaN open_conversation)))"
  by (simp add: setVolume_def getVolume_def open_conversation_def Math_max_def Math_min_def
      set_gain_value_def)

end
